theory Spec2Isabelle
  imports Main "HOL-Library.Multiset" "HOL-Library.Sublist"
begin

section \<open>The source-control objects the automation reads\<close>

text \<open>
  The automation (\<^verbatim>\<open>backstage_automation.py\<close>) talks to a source-control client whose
  objects are duck typed (\<^verbatim>\<open>repo: Any\<close>). Every call of the client either returns a
  value or raises; a raise is the left summand of a sum type. The client signals a path
  that does not exist by raising (the source relies on it: \<^verbatim>\<open>generate_status_report\<close>,
  \<^verbatim>\<open>generate_priority_report\<close>, \<^verbatim>\<open>create_pr_and_issue\<close> and \<^verbatim>\<open>main\<close> all detect a
  missing file with \<^verbatim>\<open>try: repo.get_contents(...) except Exception\<close>), and so does
  the branch-protection lookup on a branch without protection (\<^verbatim>\<open>force_merge_pr\<close>:
  "Branch might not have protection").
\<close>

datatype exn =
    UnknownObjectException string
  | GithubException string
  | TypeError string
  | UnicodeDecodeError string
  | StopIteration
  | OSError string
  | InvalidToken

text \<open>\<^verbatim>\<open>str(e)\<close>, the message of an exception.\<close>

fun str :: "exn \<Rightarrow> string" where
  "str (UnknownObjectException m) = m"
| "str (GithubException m) = m"
| "str (TypeError m) = m"
| "str (UnicodeDecodeError m) = m"
| "str StopIteration = []"
| "str (OSError m) = m"
| "str InvalidToken = []"

text \<open>
  An entry of a repository tree. \<^verbatim>\<open>decoded_content.decode()\<close> is fetched on demand and
  may raise (transport failure, content that is not UTF-8).
\<close>

record content_file =
  cf_name :: string
  cf_path :: string
  cf_type :: string
  decoded_content :: "exn + string"

text \<open>\<^verbatim>\<open>get_contents\<close> returns one entry for a file and a list of entries for a directory.\<close>

datatype contents = ContentFile content_file | ContentList "content_file list"

text \<open>Python truthiness of what \<^verbatim>\<open>get_contents\<close> returned: an object is true, a list is
  true when it is not empty.\<close>

fun truthy :: "contents \<Rightarrow> bool" where
  "truthy (ContentFile f) = True"
| "truthy (ContentList fs) = (fs \<noteq> [])"

text \<open>
  A lazily paginated listing: \<^verbatim>\<open>totalCount\<close> and every element are fetched when they
  are asked for, and each fetch may raise.
\<close>

record 'a paginated =
  totalCount :: "exn + int"
  elems :: "(exn + 'a) list"

text \<open>\<^verbatim>\<open>next(p)\<close>: the first element of the listing.\<close>

definition next_elem :: "'a paginated \<Rightarrow> exn + 'a" where
  "next_elem p = (case elems p of [] \<Rightarrow> Inl StopIteration | x # _ \<Rightarrow> x)"

record pull_request =
  pr_number :: int
  head_ref :: string

record named_user =
  login :: string

record team =
  team_name :: string

text \<open>
  A repository. Timestamps are seconds on the clock that \<^verbatim>\<open>datetime.now()\<close> reads;
  \<^verbatim>\<open>pushed_at\<close> is \<^verbatim>\<open>None\<close> for a repository that was never pushed to.
  \<^verbatim>\<open>get_branch_protection b\<close> stands for \<^verbatim>\<open>repo.get_branch(b).get_protection()\<close>: the
  truth value of the object returned, or the raise of either call.
\<close>

record repository =
  repo_name :: string
  archived :: bool
  created_at :: int
  pushed_at :: "int option"
  stargazers_count :: int
  forks_count :: int
  description :: "string option"
  homepage :: "string option"
  topics :: "string list"
  html_url :: string
  get_contents :: "string \<Rightarrow> exn + contents"
  get_branch_protection :: "string \<Rightarrow> exn + bool"
  get_commits :: "exn + string paginated"
  get_contributors :: "exn + named_user paginated"
  get_pulls :: "exn + (exn + pull_request) list"

record organization =
  org_login :: string
  get_repos :: "(exn + repository) list"
  get_user_teams :: "named_user \<Rightarrow> exn + team paginated"

section \<open>Strings\<close>

text \<open>
  A character of the model is a code point below 256 (ASCII and Latin-1); text with
  other code points is outside the model. The upper-case letters among them are A to Z
  (65 to 90) and the accented capitals 192 to 214 and 216 to 222; each becomes lower
  case by adding 32, which sets bit 5. Every other character stays.
\<close>

fun lower_char :: "char \<Rightarrow> char" where
  "lower_char (Char b0 b1 b2 b3 b4 b5 b6 b7) =
     (let n = (of_char (Char b0 b1 b2 b3 b4 b5 b6 b7) :: nat) in
        if (65 \<le> n \<and> n \<le> 90) \<or> (192 \<le> n \<and> n \<le> 214) \<or> (216 \<le> n \<and> n \<le> 222)
        then Char b0 b1 b2 b3 b4 True b6 b7
        else Char b0 b1 b2 b3 b4 b5 b6 b7)"

text \<open>\<^verbatim>\<open>s.lower()\<close>.\<close>

definition lower :: "string \<Rightarrow> string" where
  "lower s = map lower_char s"

fun startswith :: "string \<Rightarrow> string \<Rightarrow> bool" where
  "startswith s [] = True"
| "startswith [] (p # ps) = False"
| "startswith (c # cs) (p # ps) = (c = p \<and> startswith cs ps)"

definition endswith :: "string \<Rightarrow> string \<Rightarrow> bool" where
  "endswith s p = startswith (rev s) (rev p)"

text \<open>\<^verbatim>\<open>k in s\<close>: \<open>k\<close> occurs in \<open>s\<close> as a contiguous substring.\<close>

fun contains_str :: "string \<Rightarrow> string \<Rightarrow> bool" where
  "contains_str [] k = (k = [])"
| "contains_str (c # cs) k = (startswith (c # cs) k \<or> contains_str cs k)"

section \<open>Repository inspector\<close>

text \<open>
  \<^verbatim>\<open>any(repo.get_contents(file) for file in files)\<close>: the generator is consumed from the
  left, stops at the first true value, and a raise of \<^verbatim>\<open>get_contents\<close> leaves
  \<^verbatim>\<open>any\<close> at once.
\<close>

fun any_contents :: "repository \<Rightarrow> string list \<Rightarrow> exn + bool" where
  "any_contents repo [] = Inr False"
| "any_contents repo (file # files) =
     (case get_contents repo file of
        Inl e \<Rightarrow> Inl e
      | Inr c \<Rightarrow> if truthy c then Inr True else any_contents repo files)"

definition service_indicators :: "string list" where
  "service_indicators = [''Dockerfile'', ''docker-compose.yml'', ''k8s'', ''kubernetes'']"

definition website_indicators :: "string list" where
  "website_indicators = [''package.json'', ''index.html'', ''public/index.html'', ''src/index.js'']"

definition library_indicators :: "string list" where
  "library_indicators = [''setup.py'', ''composer.json'', ''go.mod'']"

text \<open>\<^verbatim>\<open>_determine_component_type\<close>: every raise inside the \<^verbatim>\<open>try\<close> returns "service".\<close>

definition determine_component_type :: "repository \<Rightarrow> string" where
  "determine_component_type repo =
     (case any_contents repo service_indicators of
        Inl e \<Rightarrow> ''service''
      | Inr True \<Rightarrow> ''service''
      | Inr False \<Rightarrow>
         (case any_contents repo website_indicators of
            Inl e \<Rightarrow> ''service''
          | Inr True \<Rightarrow> ''website''
          | Inr False \<Rightarrow>
             (case any_contents repo library_indicators of
                Inl e \<Rightarrow> ''service''
              | Inr True \<Rightarrow> ''library''
              | Inr False \<Rightarrow> ''service'')))"

text \<open>
  \<^verbatim>\<open>(datetime.now() - t).days\<close>: whole days from \<open>t\<close> to \<open>now\<close>, rounded down
  (a day is 86400 seconds).
\<close>

definition days_since :: "int \<Rightarrow> int \<Rightarrow> int" where
  "days_since now t = (now - t) div 86400"

text \<open>
  \<^verbatim>\<open>_determine_lifecycle\<close>, with \<^verbatim>\<open>self.base_branch\<close> and the clock as arguments.
  \<^verbatim>\<open>commits.totalCount\<close> is only read when the age test has failed.
\<close>

definition determine_lifecycle :: "string \<Rightarrow> int \<Rightarrow> repository \<Rightarrow> string" where
  "determine_lifecycle base_branch now repo =
     (if archived repo then ''deprecated''
      else
        (case get_branch_protection repo base_branch of
           Inl e \<Rightarrow> ''production''
         | Inr True \<Rightarrow> ''production''
         | Inr False \<Rightarrow>
            (case get_commits repo of
               Inl e \<Rightarrow> ''production''
             | Inr commits \<Rightarrow>
                (if days_since now (created_at repo) < 90 then ''experimental''
                 else
                   (case totalCount commits of
                      Inl e \<Rightarrow> ''production''
                    | Inr n \<Rightarrow>
                       if n > 100 \<and> pushed_at repo \<noteq> None then ''production''
                       else ''development'')))))"

subsection \<open>Owner\<close>

text \<open>
  The character class \<^verbatim>\<open>[\w-]\<close>. On a \<^verbatim>\<open>str\<close> pattern \<^verbatim>\<open>\w\<close> is the underscore and
  every alphanumeric code point: below 256 these are the ASCII digits and letters, the
  ordinal indicators 170 and 186, the micro sign 181, the superscript digits 178, 179
  and 185, the fractions 188 to 190, and the Latin-1 letters 192 to 255 without the
  multiplication and division signs 215 and 247.
\<close>

definition word_or_hyphen :: "char \<Rightarrow> bool" where
  "word_or_hyphen c =
     (let n = (of_char c :: nat) in
        (48 \<le> n \<and> n \<le> 57) \<or> (65 \<le> n \<and> n \<le> 90) \<or> (97 \<le> n \<and> n \<le> 122)
        \<or> n = 95 \<or> n = 45
        \<or> n = 170 \<or> n = 178 \<or> n = 179 \<or> n = 181 \<or> n = 185 \<or> n = 186
        \<or> (188 \<le> n \<and> n \<le> 190)
        \<or> (192 \<le> n \<and> n \<le> 214) \<or> (216 \<le> n \<and> n \<le> 246) \<or> (248 \<le> n \<and> n \<le> 255))"

text \<open>
  A match of \<^verbatim>\<open>@[\w-]+/[\w-]+\<close> at the start of the text. Both runs are greedy; the
  class contains neither \<^verbatim>\<open>@\<close> nor \<^verbatim>\<open>/\<close>, so a shorter first run never matches
  where the longest one fails.
\<close>

definition match_team :: "string \<Rightarrow> string option" where
  "match_team s =
     (case s of
        [] \<Rightarrow> None
      | c # cs \<Rightarrow>
         if c \<noteq> CHR ''@'' then None
         else
           (let org = takeWhile word_or_hyphen cs; rest = dropWhile word_or_hyphen cs in
              if org = [] then None
              else
                (case rest of
                   [] \<Rightarrow> None
                 | d # ds \<Rightarrow>
                    if d \<noteq> CHR ''/'' then None
                    else
                      (let t = takeWhile word_or_hyphen ds in
                         if t = [] then None else Some (c # org @ d # t)))))"

text \<open>\<^verbatim>\<open>re.findall\<close>: the matches from left to right, the search resuming after each match.\<close>

fun findall_teams :: "string \<Rightarrow> string list" where
  "findall_teams [] = []"
| "findall_teams (c # cs) =
     (case match_team (c # cs) of
        None \<Rightarrow> findall_teams cs
      | Some m \<Rightarrow> m # findall_teams (drop (length m - 1) cs))"

text \<open>\<^verbatim>\<open>s.replace('@', '')\<close>.\<close>

definition remove_at :: "string \<Rightarrow> string" where
  "remove_at s = filter (\<lambda>c. c \<noteq> CHR ''@'') s"

text \<open>
  The inner \<^verbatim>\<open>try\<close> of \<^verbatim>\<open>_determine_owner\<close>: the first team named in CODEOWNERS, or
  nothing (also when anything in it raises; a directory listing has no
  \<^verbatim>\<open>decoded_content\<close>).
\<close>

definition codeowners_team :: "repository \<Rightarrow> string option" where
  "codeowners_team repo =
     (case get_contents repo ''CODEOWNERS'' of
        Inl e \<Rightarrow> None
      | Inr c \<Rightarrow>
         if truthy c then
           (case c of
              ContentList fs \<Rightarrow> None
            | ContentFile f \<Rightarrow>
               (case decoded_content f of
                  Inl e \<Rightarrow> None
                | Inr content \<Rightarrow>
                   (case findall_teams content of
                      [] \<Rightarrow> None
                    | t # ts \<Rightarrow> Some (remove_at t))))
         else None)"

text \<open>
  The rest of \<^verbatim>\<open>_determine_owner\<close>: the team lookup for the top contributor has its own
  \<^verbatim>\<open>try\<close>, whose handler returns the contributor; a lookup that returns no team
  leaves the \<^verbatim>\<open>if\<close> and reaches the fallback.
\<close>

definition contributor_owner :: "organization \<Rightarrow> repository \<Rightarrow> string" where
  "contributor_owner org repo =
     (case get_contributors repo of
        Inl e \<Rightarrow> ''default-team''
      | Inr contributors \<Rightarrow>
         (case totalCount contributors of
            Inl e \<Rightarrow> ''default-team''
          | Inr n \<Rightarrow>
             if n > 0 then
               (case next_elem contributors of
                  Inl e \<Rightarrow> ''default-team''
                | Inr top_contributor \<Rightarrow>
                   (case get_user_teams org top_contributor of
                      Inl e \<Rightarrow> ''user:'' @ login top_contributor
                    | Inr teams \<Rightarrow>
                       (case totalCount teams of
                          Inl e \<Rightarrow> ''user:'' @ login top_contributor
                        | Inr m \<Rightarrow>
                           if m > 0 then
                             (case next_elem teams of
                                Inl e \<Rightarrow> ''user:'' @ login top_contributor
                              | Inr t \<Rightarrow> team_name t)
                           else ''default-team'')))
             else ''default-team''))"

definition determine_owner :: "organization \<Rightarrow> repository \<Rightarrow> string" where
  "determine_owner org repo =
     (case codeowners_team repo of
        Some t \<Rightarrow> t
      | None \<Rightarrow> contributor_owner org repo)"

section \<open>API spec detector\<close>

record api_spec =
  spec_path :: string
  spec_type :: string
  spec_content :: string

definition spec_patterns :: "string list" where
  "spec_patterns =
     [''openapi.yaml'', ''openapi.yml'', ''openapi.json'',
      ''swagger.yaml'', ''swagger.yml'', ''swagger.json'',
      ''asyncapi.yaml'', ''asyncapi.yml'', ''asyncapi.json'',
      ''graphql.schema'', ''schema.graphql'']"

text \<open>\<^verbatim>\<open>_determine_api_type\<close>.\<close>

definition determine_api_type :: "string \<Rightarrow> string" where
  "determine_api_type filename =
     (let filename = lower filename in
        if contains_str filename ''openapi'' \<or> contains_str filename ''swagger'' then ''openapi''
        else if contains_str filename ''asyncapi'' then ''asyncapi''
        else if contains_str filename ''graphql'' then ''graphql''
        else ''openapi'')"

text \<open>\<^verbatim>\<open>any(c.name.lower().endswith(pat) for pat in spec_patterns)\<close>.\<close>

definition is_spec_file :: "content_file \<Rightarrow> bool" where
  "is_spec_file c = list_ex (\<lambda>pat. endswith (lower (cf_name c)) pat) spec_patterns"

text \<open>
  The list \<^verbatim>\<open>api_specs\<close> is extended in place, so what was appended before a raise
  is still in it when a handler runs. Each loop returns the list and the exception that
  ended it, if any. The entry is appended only after its content was decoded.
\<close>

fun scan_sub :: "content_file list \<Rightarrow> api_spec list \<Rightarrow> api_spec list \<times> exn option" where
  "scan_sub [] api_specs = (api_specs, None)"
| "scan_sub (subcontent # subcontents) api_specs =
     (if is_spec_file subcontent then
        (case decoded_content subcontent of
           Inl e \<Rightarrow> (api_specs, Some e)
         | Inr text \<Rightarrow>
            scan_sub subcontents
              (api_specs @ [\<lparr>spec_path = cf_path subcontent,
                              spec_type = determine_api_type (cf_name subcontent),
                              spec_content = text\<rparr>]))
      else scan_sub subcontents api_specs)"

text \<open>
  The loop over the root entries. A raise inside a directory is caught by the inner
  handler (\<^verbatim>\<open>continue\<close>); iterating over something that is not a list raises there
  too. A raise on a root file leaves the loop for the outer handler.
\<close>

fun scan_top :: "repository \<Rightarrow> content_file list \<Rightarrow> api_spec list \<Rightarrow> api_spec list \<times> exn option" where
  "scan_top repo [] api_specs = (api_specs, None)"
| "scan_top repo (content # contents) api_specs =
     (if cf_type content = ''dir'' then
        (if lower (cf_name content) \<in> set [''docs'', ''api'', ''specs''] then
           (case get_contents repo (cf_path content) of
              Inl e \<Rightarrow> scan_top repo contents api_specs
            | Inr (ContentFile f) \<Rightarrow> scan_top repo contents api_specs
            | Inr (ContentList subcontents) \<Rightarrow>
               scan_top repo contents (fst (scan_sub subcontents api_specs)))
         else scan_top repo contents api_specs)
      else if is_spec_file content then
        (case decoded_content content of
           Inl e \<Rightarrow> (api_specs, Some e)
         | Inr text \<Rightarrow>
            scan_top repo contents
              (api_specs @ [\<lparr>spec_path = cf_path content,
                              spec_type = determine_api_type (cf_name content),
                              spec_content = text\<rparr>]))
      else scan_top repo contents api_specs)"

text \<open>\<^verbatim>\<open>_detect_api_specs\<close>: the outer handler prints and the list is returned as it is.\<close>

definition detect_api_specs :: "repository \<Rightarrow> api_spec list" where
  "detect_api_specs repo =
     (case get_contents repo [] of
        Inl e \<Rightarrow> []
      | Inr (ContentFile f) \<Rightarrow> []
      | Inr (ContentList contents) \<Rightarrow> fst (scan_top repo contents []))"

section \<open>Priority scorer\<close>

datatype reason =
    Recently_active
  | Established_project
  | Has_stars int
  | Has_forks int
  | Has_developer_documentation
  | Api_related_description
  | Api_related_topics
  | Has_description
  | Has_homepage
  | Has_topics nat

text \<open>The two locals \<^verbatim>\<open>score\<close> and \<^verbatim>\<open>reasons\<close> of \<^verbatim>\<open>analyze_repository_priority\<close>.\<close>

record scoring =
  score :: int
  reasons :: "reason list"

definition add_points :: "int \<Rightarrow> reason \<Rightarrow> scoring \<Rightarrow> scoring" where
  "add_points n r s = \<lparr>score = score s + n, reasons = reasons s @ [r]\<rparr>"

text \<open>Truthiness of an optional string: \<^verbatim>\<open>None\<close> and the empty string are false.\<close>

fun truthy_str :: "string option \<Rightarrow> bool" where
  "truthy_str None = False"
| "truthy_str (Some s) = (s \<noteq> [])"

definition dev_files :: "string list" where
  "dev_files = [''README.md'', ''API.md'', ''docs'', ''api'', ''swagger.yml'', ''openapi.yml'']"

definition api_keywords :: "string list" where
  "api_keywords = [''api'', ''sdk'', ''library'', ''client'', ''developer'', ''toolkit'']"

definition recently_active_step :: "int \<Rightarrow> int \<Rightarrow> scoring \<Rightarrow> scoring" where
  "recently_active_step now pushed s =
     (if days_since now pushed \<le> 30 then add_points 30 Recently_active s else s)"

definition established_step :: "int \<Rightarrow> repository \<Rightarrow> scoring \<Rightarrow> scoring" where
  "established_step now repo s =
     (if days_since now (created_at repo) \<ge> 180 then add_points 20 Established_project s else s)"

definition stars_step :: "repository \<Rightarrow> scoring \<Rightarrow> scoring" where
  "stars_step repo s =
     (if stargazers_count repo > 0
      then add_points (min (stargazers_count repo * 2) 50) (Has_stars (stargazers_count repo)) s
      else s)"

definition forks_step :: "repository \<Rightarrow> scoring \<Rightarrow> scoring" where
  "forks_step repo s =
     (if forks_count repo > 0
      then add_points (min (forks_count repo * 5) 50) (Has_forks (forks_count repo)) s
      else s)"

definition documentation_step :: "string list \<Rightarrow> scoring \<Rightarrow> scoring" where
  "documentation_step files s =
     (if filter (\<lambda>f. list_ex (\<lambda>df. contains_str (lower f) (lower df)) dev_files) files \<noteq> []
      then add_points 30 Has_developer_documentation s else s)"

definition description_keyword_step :: "repository \<Rightarrow> scoring \<Rightarrow> scoring" where
  "description_keyword_step repo s =
     (case description repo of
        None \<Rightarrow> s
      | Some d \<Rightarrow>
         if d \<noteq> [] \<and> list_ex (\<lambda>k. contains_str (lower d) k) api_keywords
         then add_points 20 Api_related_description s else s)"

definition topic_keyword_step :: "repository \<Rightarrow> scoring \<Rightarrow> scoring" where
  "topic_keyword_step repo s =
     (if topics repo \<noteq> []
         \<and> list_ex (\<lambda>t. list_ex (\<lambda>k. contains_str (lower t) k) api_keywords) (topics repo)
      then add_points 20 Api_related_topics s else s)"

text \<open>
  The \<^verbatim>\<open>try\<close> block: when the root listing raises (or is not a list to iterate over)
  the handler skips the three rules of the block.
\<close>

definition developer_step :: "repository \<Rightarrow> scoring \<Rightarrow> scoring" where
  "developer_step repo s =
     (case get_contents repo [] of
        Inl e \<Rightarrow> s
      | Inr (ContentFile f) \<Rightarrow> s
      | Inr (ContentList fs) \<Rightarrow>
         topic_keyword_step repo
           (description_keyword_step repo (documentation_step (map cf_name fs) s)))"

definition has_description_step :: "repository \<Rightarrow> scoring \<Rightarrow> scoring" where
  "has_description_step repo s =
     (if truthy_str (description repo) then add_points 10 Has_description s else s)"

definition has_homepage_step :: "repository \<Rightarrow> scoring \<Rightarrow> scoring" where
  "has_homepage_step repo s =
     (if truthy_str (homepage repo) then add_points 10 Has_homepage s else s)"

definition topic_count_step :: "repository \<Rightarrow> scoring \<Rightarrow> scoring" where
  "topic_count_step repo s =
     (if topics repo \<noteq> []
      then add_points (min (int (length (topics repo)) * 5) 20) (Has_topics (length (topics repo))) s
      else s)"

record analysis =
  res_name :: string
  res_score :: int
  res_reasons :: "reason list"
  res_url :: string
  res_description :: string
  res_updated_at :: int
  res_stars :: int
  res_forks :: int

text \<open>
  \<^verbatim>\<open>analyze_repository_priority\<close>. The first statement subtracts \<^verbatim>\<open>repo.pushed_at\<close>
  from the clock outside any \<^verbatim>\<open>try\<close>: on a repository never pushed to it raises.
\<close>

definition analyze_repository_priority :: "int \<Rightarrow> repository \<Rightarrow> exn + analysis" where
  "analyze_repository_priority now repo =
     (case pushed_at repo of
        None \<Rightarrow> Inl (TypeError ''unsupported operand type(s) for -'')
      | Some pushed \<Rightarrow>
         (let s = topic_count_step repo
                   (has_homepage_step repo
                     (has_description_step repo
                       (developer_step repo
                         (forks_step repo
                           (stars_step repo
                             (established_step now repo
                               (recently_active_step now pushed
                                 \<lparr>score = 0, reasons = []\<rparr>)))))))
          in Inr \<lparr>res_name = repo_name repo,
                   res_score = score s,
                   res_reasons = reasons s,
                   res_url = html_url repo,
                   res_description = (case description repo of None \<Rightarrow> [] | Some d \<Rightarrow> d),
                   res_updated_at = pushed,
                   res_stars = stargazers_count repo,
                   res_forks = forks_count repo\<rparr>))"

text \<open>
  The loop of \<^verbatim>\<open>generate_priority_report\<close>. A raise while the organization's
  repositories are listed is not caught; a raise of the analysis is caught and the
  repository skipped.
\<close>

fun priority_loop :: "int \<Rightarrow> (exn + repository) list \<Rightarrow> analysis list \<Rightarrow> exn + analysis list" where
  "priority_loop now [] analysis_results = Inr analysis_results"
| "priority_loop now (Inl e # repositories) analysis_results = Inl e"
| "priority_loop now (Inr repo # repositories) analysis_results =
     (case get_contents repo ''catalog-info.yaml'' of
        Inr c \<Rightarrow> priority_loop now repositories analysis_results
      | Inl e \<Rightarrow>
         (case analyze_repository_priority now repo of
            Inl e' \<Rightarrow> priority_loop now repositories analysis_results
          | Inr result \<Rightarrow>
             if res_score result > 30
             then priority_loop now repositories (analysis_results @ [result])
             else priority_loop now repositories analysis_results))"

text \<open>
  \<^verbatim>\<open>generate_priority_report\<close>: the entries of the report in the order they are printed
  (the markdown around them is not modelled). \<^verbatim>\<open>sort(key=score, reverse=True)\<close> is
  stable: entries of equal score keep their order.
\<close>

definition generate_priority_report :: "int \<Rightarrow> organization \<Rightarrow> exn + analysis list" where
  "generate_priority_report now org =
     (case priority_loop now (get_repos org) [] of
        Inl e \<Rightarrow> Inl e
      | Inr analysis_results \<Rightarrow>
         Inr (take 10 (sort_key (\<lambda>x. - res_score x) analysis_results)))"

section \<open>Status aggregator\<close>

datatype status = Onboarded | In_progress int | Not_onboarded | Error string

text \<open>
  The four counters of \<^verbatim>\<open>generate_status_report\<close> and the accumulator
  \<^verbatim>\<open>self.status_report\<close>, one line (repository name and status) per append.
\<close>

record report =
  total :: nat
  onboarded :: nat
  in_progress :: nat
  not_onboarded :: nat
  status_report :: "(string \<times> status) list"

text \<open>The loop over the open pull requests, left at the first branch name with the marker.\<close>

fun find_integration_pr :: "(exn + pull_request) list \<Rightarrow> exn + pull_request option" where
  "find_integration_pr [] = Inr None"
| "find_integration_pr (Inl e # open_prs) = Inl e"
| "find_integration_pr (Inr pr # open_prs) =
     (if contains_str (head_ref pr) ''backstage-integration'' then Inr (Some pr)
      else find_integration_pr open_prs)"

text \<open>The body of the loop over the repositories.\<close>

definition status_step :: "repository \<Rightarrow> report \<Rightarrow> report" where
  "status_step repo r =
     (let r = r\<lparr>total := total r + 1\<rparr> in
        case get_contents repo ''catalog-info.yaml'' of
          Inr c \<Rightarrow>
            r\<lparr>onboarded := onboarded r + 1,
              status_report := status_report r @ [(repo_name repo, Onboarded)]\<rparr>
        | Inl e \<Rightarrow>
           (case get_pulls repo of
              Inl e \<Rightarrow> r\<lparr>status_report := status_report r @ [(repo_name repo, Error (str e))]\<rparr>
            | Inr open_prs \<Rightarrow>
               (case find_integration_pr open_prs of
                  Inl e \<Rightarrow>
                    r\<lparr>status_report := status_report r @ [(repo_name repo, Error (str e))]\<rparr>
                | Inr (Some pr) \<Rightarrow>
                    r\<lparr>in_progress := in_progress r + 1,
                      status_report :=
                        status_report r @ [(repo_name repo, In_progress (pr_number pr))]\<rparr>
                | Inr None \<Rightarrow>
                    r\<lparr>not_onboarded := not_onboarded r + 1,
                      status_report := status_report r @ [(repo_name repo, Not_onboarded)]\<rparr>)))"

fun status_loop :: "(exn + repository) list \<Rightarrow> report \<Rightarrow> exn + report" where
  "status_loop [] r = Inr r"
| "status_loop (Inl e # repositories) r = Inl e"
| "status_loop (Inr repo # repositories) r = status_loop repositories (status_step repo r)"

text \<open>
  \<^verbatim>\<open>generate_status_report\<close>, from the accumulator \<^verbatim>\<open>self.status_report\<close> as the call
  finds it. The result holds the numbers and lines that the summary text prints, and its
  \<open>status_report\<close> is the accumulator the call leaves behind.
\<close>

definition generate_status_report :: "organization \<Rightarrow> (string \<times> status) list \<Rightarrow> exn + report" where
  "generate_status_report org lines =
     status_loop (get_repos org)
       \<lparr>total = 0, onboarded = 0, in_progress = 0, not_onboarded = 0, status_report = lines\<rparr>"

section \<open>Concrete repositories\<close>

definition missing :: "exn + 'a" where
  "missing = Inl (UnknownObjectException ''404 Not Found'')"

definition file_entry :: "string \<Rightarrow> string \<Rightarrow> content_file" where
  "file_entry p content =
     \<lparr>cf_name = p, cf_path = p, cf_type = ''file'', decoded_content = Inr content\<rparr>"

definition dir_entry :: "string \<Rightarrow> content_file" where
  "dir_entry p =
     \<lparr>cf_name = p, cf_path = p, cf_type = ''dir'',
      decoded_content = Inl (GithubException ''unsupported encoding'')\<rparr>"

definition no_items :: "'a paginated" where
  "no_items = \<lparr>totalCount = Inr 0, elems = []\<rparr>"

text \<open>
  An empty repository created and pushed at time 0: every path but the root is missing,
  the main branch is not protected, and there are no commits, contributors or pull
  requests.
\<close>

definition plain_repo :: repository where
  "plain_repo =
     \<lparr>repo_name = ''plain'', archived = False, created_at = 0, pushed_at = Some 0,
      stargazers_count = 0, forks_count = 0, description = None, homepage = None,
      topics = [], html_url = ''https://github.com/acme/plain'',
      get_contents = (\<lambda>p. if p = [] then Inr (ContentList []) else missing),
      get_branch_protection = (\<lambda>b. Inl (GithubException ''404 Branch not protected'')),
      get_commits = Inr no_items,
      get_contributors = Inr no_items,
      get_pulls = Inr []\<rparr>"

text \<open>A repository whose only file is package.json.\<close>

definition package_json_repo :: repository where
  "package_json_repo =
     plain_repo\<lparr>repo_name := ''web-shop'',
       get_contents := (\<lambda>p.
         if p = [] then Inr (ContentList [file_entry ''package.json'' ''{}''])
         else if p = ''package.json'' then Inr (ContentFile (file_entry ''package.json'' ''{}''))
         else missing)\<rparr>"

text \<open>A repository created at time 0 with 5 commits, read ten days later.\<close>

definition young_repo :: repository where
  "young_repo =
     plain_repo\<lparr>repo_name := ''prototype'', pushed_at := Some 860000,
       get_commits := Inr \<lparr>totalCount = Inr 5, elems = []\<rparr>\<rparr>"

definition ten_days :: int where
  "ten_days = 10 * 86400"

text \<open>A repository without CODEOWNERS whose top contributor is alice, in an organization
  whose team lookup succeeds and finds no team.\<close>

definition alice_repo :: repository where
  "alice_repo =
     plain_repo\<lparr>repo_name := ''tooling'',
       get_contributors := Inr \<lparr>totalCount = Inr 1, elems = [Inr \<lparr>login = ''alice''\<rparr>]\<rparr>\<rparr>"

definition acme_org :: organization where
  "acme_org =
     \<lparr>org_login = ''acme'', get_repos = [Inr alice_repo],
      get_user_teams = (\<lambda>u. Inr no_items)\<rparr>"

section \<open>Status resolution, as specified\<close>

text \<open>
  The status of one repository in the words of the specification: the descriptor file
  first; then the open pull requests in the order they are listed, up to the first one
  whose branch name has the marker; a raise of the pull-request lookup before such a
  pull request is found is the error status.
\<close>

definition ends_search :: "exn + pull_request \<Rightarrow> bool" where
  "ends_search x =
     (case x of Inl e \<Rightarrow> True | Inr pr \<Rightarrow> contains_str (head_ref pr) ''backstage-integration'')"

definition resolve_status :: "repository \<Rightarrow> status" where
  "resolve_status repo =
     (case get_contents repo ''catalog-info.yaml'' of
        Inr c \<Rightarrow> Onboarded
      | Inl absent \<Rightarrow>
         (case get_pulls repo of
            Inl e \<Rightarrow> Error (str e)
          | Inr open_prs \<Rightarrow>
             (case List.find ends_search open_prs of
                None \<Rightarrow> Not_onboarded
              | Some (Inl e) \<Rightarrow> Error (str e)
              | Some (Inr pr) \<Rightarrow> In_progress (pr_number pr))))"

fun is_in_progress :: "status \<Rightarrow> bool" where
  "is_in_progress (In_progress n) = True"
| "is_in_progress s = False"

definition how_many :: "(status \<Rightarrow> bool) \<Rightarrow> repository list \<Rightarrow> nat" where
  "how_many P repos = length (filter (\<lambda>repo. P (resolve_status repo)) repos)"

text \<open>The four numbers of the summary.\<close>

definition counts :: "report \<Rightarrow> nat \<times> nat \<times> nat \<times> nat" where
  "counts r = (total r, onboarded r, in_progress r, not_onboarded r)"

text \<open>A repository whose descriptor lookup fails in transport and that has no open pull
  request.\<close>

definition flaky_repo :: repository where
  "flaky_repo =
     plain_repo\<lparr>repo_name := ''flaky'',
       get_contents := (\<lambda>p. Inl (GithubException ''502 Bad Gateway''))\<rparr>"

text \<open>Two repositories without a descriptor file, the first with an open integration
  pull request, and a third whose pull-request listing fails.\<close>

definition pr_repo :: repository where
  "pr_repo =
     plain_repo\<lparr>repo_name := ''billing'',
       get_pulls := Inr [Inr \<lparr>pr_number = 7, head_ref = ''fix-typo''\<rparr>,
                         Inr \<lparr>pr_number = 12, head_ref = ''backstage-integration-1700000000''\<rparr>]\<rparr>"

definition broken_pulls_repo :: repository where
  "broken_pulls_repo =
     plain_repo\<lparr>repo_name := ''legacy'', get_pulls := Inl (GithubException ''500 Server Error'')\<rparr>"

definition status_org :: organization where
  "status_org =
     \<lparr>org_login = ''acme'',
      get_repos = [Inr pr_repo, Inr plain_repo, Inr broken_pulls_repo],
      get_user_teams = (\<lambda>u. Inr no_items)\<rparr>"

section \<open>Scoring rules, as specified\<close>

text \<open>
  The ten rules of the scoring table, each a function of the clock and the repository
  alone. The documentation rule reads the names that the root listing returns; without
  a listing no indicator file is known.
\<close>

definition root_names :: "repository \<Rightarrow> string list option" where
  "root_names repo =
     (case get_contents repo [] of
        Inl e \<Rightarrow> None
      | Inr (ContentFile f) \<Rightarrow> None
      | Inr (ContentList fs) \<Rightarrow> Some (map cf_name fs))"

definition rule_recently_active :: "int \<Rightarrow> repository \<Rightarrow> int" where
  "rule_recently_active now repo =
     (case pushed_at repo of
        None \<Rightarrow> 0
      | Some pushed \<Rightarrow> if days_since now pushed \<le> 30 then 30 else 0)"

definition rule_established :: "int \<Rightarrow> repository \<Rightarrow> int" where
  "rule_established now repo = (if 180 \<le> days_since now (created_at repo) then 20 else 0)"

definition rule_stars :: "int \<Rightarrow> repository \<Rightarrow> int" where
  "rule_stars now repo =
     (if 0 < stargazers_count repo then min (2 * stargazers_count repo) 50 else 0)"

definition rule_forks :: "int \<Rightarrow> repository \<Rightarrow> int" where
  "rule_forks now repo = (if 0 < forks_count repo then min (5 * forks_count repo) 50 else 0)"

definition rule_documentation :: "int \<Rightarrow> repository \<Rightarrow> int" where
  "rule_documentation now repo =
     (case root_names repo of
        None \<Rightarrow> 0
      | Some files \<Rightarrow>
         if list_ex (\<lambda>f. list_ex (\<lambda>df. contains_str (lower f) (lower df)) dev_files) files
         then 30 else 0)"

definition rule_description_keyword :: "int \<Rightarrow> repository \<Rightarrow> int" where
  "rule_description_keyword now repo =
     (case description repo of
        None \<Rightarrow> 0
      | Some d \<Rightarrow> if list_ex (\<lambda>k. contains_str (lower d) k) api_keywords then 20 else 0)"

definition rule_topic_keyword :: "int \<Rightarrow> repository \<Rightarrow> int" where
  "rule_topic_keyword now repo =
     (if list_ex (\<lambda>t. list_ex (\<lambda>k. contains_str (lower t) k) api_keywords) (topics repo)
      then 20 else 0)"

definition rule_has_description :: "int \<Rightarrow> repository \<Rightarrow> int" where
  "rule_has_description now repo = (if truthy_str (description repo) then 10 else 0)"

definition rule_has_homepage :: "int \<Rightarrow> repository \<Rightarrow> int" where
  "rule_has_homepage now repo = (if truthy_str (homepage repo) then 10 else 0)"

definition rule_topic_count :: "int \<Rightarrow> repository \<Rightarrow> int" where
  "rule_topic_count now repo = min (5 * int (length (topics repo))) 20"


section \<open>The scoring statements of the source, one by one\<close>



text \<open>The points a statement adds to an empty score, and the statements that add the
  same points to every score.\<close>

definition points :: "(scoring \<Rightarrow> scoring) \<Rightarrow> int" where
  "points step = score (step \<lparr>score = 0, reasons = []\<rparr>)"


section \<open>Concrete repositories for the scorer and the detector\<close>

text \<open>
  The scenario of the specification, read on day 1000: pushed 5 days ago, created 400
  days ago, 5 stars, 1 fork, description "REST client SDK", a README, no homepage, no
  topics, no descriptor file.
\<close>

definition day :: "int \<Rightarrow> int" where
  "day n = n * 86400"

definition sdk_repo :: repository where
  "sdk_repo =
     plain_repo\<lparr>repo_name := ''rest-sdk'', html_url := ''https://github.com/acme/rest-sdk'',
       created_at := day 600, pushed_at := Some (day 995),
       stargazers_count := 5, forks_count := 1, description := Some ''REST client SDK'',
       get_contents := (\<lambda>p.
         if p = [] then Inr (ContentList [file_entry ''README.md'' ''# REST client''])
         else if p = ''README.md'' then Inr (ContentFile (file_entry ''README.md'' ''# REST client''))
         else missing)\<rparr>"

text \<open>A repository at the cap of every rule, with a descriptor file committed.\<close>

definition busy_repo :: repository where
  "busy_repo =
     plain_repo\<lparr>repo_name := ''platform-api'',
       html_url := ''https://github.com/acme/platform-api'', created_at := day 100, pushed_at := Some (day 999),
       stargazers_count := 1200, forks_count := 340,
       description := Some ''Public API toolkit'', homepage := Some ''https://acme.example'',
       topics := [''api'', ''sdk'', ''rest'', ''platform'', ''go''],
       get_contents := (\<lambda>p.
         if p = [] then
           Inr (ContentList [file_entry ''README.md'' ''# Platform'',
                             file_entry ''catalog-info.yaml'' ''kind: Component''])
         else if p = ''README.md'' then Inr (ContentFile (file_entry ''README.md'' ''# Platform''))
         else if p = ''catalog-info.yaml''
           then Inr (ContentFile (file_entry ''catalog-info.yaml'' ''kind: Component''))
         else missing)\<rparr>"


text \<open>
  The repository at every cap again, its descriptor file committed and listed in the
  root, but with a lookup of the file that fails in transport.
\<close>

definition flaky_busy_repo :: repository where
  "flaky_busy_repo =
     busy_repo\<lparr>get_contents := (\<lambda>p.
       if p = ''catalog-info.yaml'' then Inl (GithubException ''502 Bad Gateway'')
       else get_contents busy_repo p)\<rparr>"

definition priority_org :: organization where
  "priority_org =
     \<lparr>org_login = ''acme'', get_repos = [Inr busy_repo, Inr sdk_repo],
      get_user_teams = (\<lambda>u. Inr no_items)\<rparr>"

text \<open>
  The elements of a listing that the loop of the priority report does not skip: a raise
  of the listing itself, and a repository whose lookup of the descriptor file raises,
  whatever the exception and whether or not the file is committed.
\<close>

definition descriptor_lookup_raises :: "exn + repository \<Rightarrow> bool" where
  "descriptor_lookup_raises x =
     (case x of Inl e \<Rightarrow> True | Inr repo \<Rightarrow> isl (get_contents repo ''catalog-info.yaml''))"

text \<open>
  A repository with a directory docs whose listing fails in transport, a readable
  openapi.yaml and a swagger.json whose content cannot be fetched; and a repository whose
  root cannot be listed.
\<close>

definition half_readable_repo :: repository where
  "half_readable_repo =
     plain_repo\<lparr>repo_name := ''orders'',
       get_contents := (\<lambda>p.
         if p = [] then
           Inr (ContentList
                 [dir_entry ''docs'',
                  file_entry ''openapi.yaml'' ''openapi: 3.0.0'',
                  (file_entry ''swagger.json'' [])
                    \<lparr>decoded_content := Inl (GithubException ''502 Bad Gateway'')\<rparr>])
         else if p = ''docs'' then Inl (GithubException ''502 Bad Gateway'')
         else missing)\<rparr>"

definition unreadable_repo :: repository where
  "unreadable_repo =
     plain_repo\<lparr>repo_name := ''vault'',
       get_contents := (\<lambda>p. Inl (GithubException ''403 Forbidden''))\<rparr>"

text \<open>
  A repository with a directory docs that lists a readable openapi.yaml, a swagger.json
  whose content cannot be fetched and a readable asyncapi.yml, and with a readable
  schema.graphql in the root.
\<close>

definition sub_entry :: "string \<Rightarrow> string \<Rightarrow> string \<Rightarrow> content_file" where
  "sub_entry dir file content =
     \<lparr>cf_name = file, cf_path = dir @ ''/'' @ file, cf_type = ''file'',
      decoded_content = Inr content\<rparr>"

definition docs_listing :: "content_file list" where
  "docs_listing =
     [sub_entry ''docs'' ''openapi.yaml'' ''openapi: 3.0.0'',
      (sub_entry ''docs'' ''swagger.json'' [])
        \<lparr>decoded_content := Inl (GithubException ''502 Bad Gateway'')\<rparr>,
      sub_entry ''docs'' ''asyncapi.yml'' ''asyncapi: 2.6.0'']"

definition docs_repo :: repository where
  "docs_repo =
     plain_repo\<lparr>repo_name := ''events'',
       get_contents := (\<lambda>p.
         if p = [] then
           Inr (ContentList [dir_entry ''docs'', file_entry ''schema.graphql'' ''type Query''])
         else if p = ''docs'' then Inr (ContentList docs_listing)
         else missing)\<rparr>"

section \<open>Secure configuration storage\<close>

text \<open>
  \<^verbatim>\<open>secure_storage.py\<close> keeps one file per organization: the configuration dictionary,
  written as JSON and encrypted. The values a configuration can hold are Python values;
  a dictionary is the list of its items in insertion order, its keys hashable values.
\<close>

datatype py_key = KeyStr string | KeyInt int | KeyBool bool | KeyNone | KeyBytes string

datatype py =
    PyNone
  | PyBool bool
  | PyInt int
  | PyStr string
  | PyBytes string
  | PyList "py list"
  | PyTuple "py list"
  | PyDict "(py_key \<times> py) list"





















definition numbered_config :: py where
  "numbered_config = PyDict [(KeyInt 1, PyStr ''a'')]"


section \<open>Indicator files, as specified\<close>

text \<open>An indicator is present when its lookup returns a true value.\<close>

definition present :: "repository \<Rightarrow> string \<Rightarrow> bool" where
  "present repo file = (case get_contents repo file of Inl e \<Rightarrow> False | Inr c \<Rightarrow> truthy c)"

section \<open>Properties of the repository inspector\<close>

subsection \<open>Component type\<close>

text \<open>
  A missing service indicator is a raise of \<^verbatim>\<open>get_contents\<close>, and the handler of
  \<^verbatim>\<open>_determine_component_type\<close> answers "service": without a Dockerfile the website
  and library checks are never reached.
\<close>

lemma component_type_absent_is_service:
  "isl (get_contents repo ''Dockerfile'') \<Longrightarrow> determine_component_type repo = ''service''"
  by (cases "get_contents repo ''Dockerfile''")
     (simp_all add: determine_component_type_def service_indicators_def)

text \<open>The precedence of the specification holds for a client whose lookups of the
  indicator files never raise.\<close>

lemma any_contents_present:
  "list_all (\<lambda>file. \<not> isl (get_contents repo file)) files \<Longrightarrow>
     any_contents repo files = Inr (list_ex (present repo) files)"
  by (induction files) (auto simp: present_def split: sum.splits)

lemma component_type_precedence:
  assumes "list_all (\<lambda>file. \<not> isl (get_contents repo file))
             (service_indicators @ website_indicators @ library_indicators)"
  shows "determine_component_type repo =
           (if list_ex (present repo) service_indicators then ''service''
            else if list_ex (present repo) website_indicators then ''website''
            else if list_ex (present repo) library_indicators then ''library''
            else ''service'')"
proof -
  from assms have "any_contents repo service_indicators
        = Inr (list_ex (present repo) service_indicators)"
    and "any_contents repo website_indicators = Inr (list_ex (present repo) website_indicators)"
    and "any_contents repo library_indicators = Inr (list_ex (present repo) library_indicators)"
    by (simp_all add: any_contents_present)
  then show ?thesis by (simp add: determine_component_type_def)
qed

text \<open>
  Claim C1 (precedence service > website > library > default; a repository with
  package.json and no service indicator is a website). On the repository whose only file
  is package.json the lookup of Dockerfile raises, package.json is there, and the
  classification is "service", where the claim says "website".
\<close>

theorem component_type_package_json_only:
  "get_contents package_json_repo ''Dockerfile'' = missing \<and>
   get_contents package_json_repo ''package.json'' =
     Inr (ContentFile (file_entry ''package.json'' ''{}'')) \<and>
   determine_component_type package_json_repo = ''service''"
  by (simp add: determine_component_type_def package_json_repo_def plain_repo_def
      service_indicators_def missing_def)

subsection \<open>Lifecycle\<close>

text \<open>
  The protection lookup raises on a branch without protection, and the handler of
  \<^verbatim>\<open>_determine_lifecycle\<close> answers "production": the age and commit checks are only
  reached when the lookup returns a false value.
\<close>

lemma lifecycle_unprotected_is_production:
  "\<not> archived repo \<Longrightarrow> isl (get_branch_protection repo base_branch) \<Longrightarrow>
     determine_lifecycle base_branch now repo = ''production''"
  by (cases "get_branch_protection repo base_branch") (simp_all add: determine_lifecycle_def)

lemma lifecycle_archived_is_deprecated:
  "archived repo \<Longrightarrow> determine_lifecycle base_branch now repo = ''deprecated''"
  by (simp add: determine_lifecycle_def)

text \<open>The chain of the specification holds when the protection lookup and the commit
  count return.\<close>

lemma lifecycle_chain:
  assumes "get_branch_protection repo base_branch = Inr protected"
    and "get_commits repo = Inr commits" and "totalCount commits = Inr n"
  shows "determine_lifecycle base_branch now repo =
           (if archived repo then ''deprecated''
            else if protected then ''production''
            else if days_since now (created_at repo) < 90 then ''experimental''
            else if 100 < n \<and> pushed_at repo \<noteq> None then ''production''
            else ''development'')"
  using assms by (simp add: determine_lifecycle_def)

text \<open>
  Claim C2 (archived, then protection, then age under 90 days, then commits; a repository
  10 days old with 5 commits and no branch protection is experimental). On that
  repository the protection lookup raises "Branch not protected" and the classification
  is "production", where the claim says "experimental".
\<close>

theorem lifecycle_young_unprotected:
  "archived young_repo = False \<and>
   days_since ten_days (created_at young_repo) = 10 \<and>
   get_commits young_repo = Inr \<lparr>totalCount = Inr 5, elems = []\<rparr> \<and>
   get_branch_protection young_repo ''main'' = Inl (GithubException ''404 Branch not protected'') \<and>
   determine_lifecycle ''main'' ten_days young_repo = ''production''"
  by (simp add: determine_lifecycle_def young_repo_def plain_repo_def ten_days_def days_since_def)

subsection \<open>Owner\<close>

text \<open>With a top contributor and no team in CODEOWNERS, the contributor is the owner when
  the team lookup raises, and the fallback is the owner when it returns no team.\<close>

lemma owner_team_lookup_raises:
  assumes "codeowners_team repo = None"
    and "get_contributors repo = Inr contributors" and "totalCount contributors = Inr n"
    and "0 < n" and "next_elem contributors = Inr top_contributor"
    and "get_user_teams org top_contributor = Inl e"
  shows "determine_owner org repo = ''user:'' @ login top_contributor"
  using assms by (simp add: determine_owner_def contributor_owner_def)

lemma owner_no_team_is_default:
  assumes "codeowners_team repo = None"
    and "get_contributors repo = Inr contributors" and "totalCount contributors = Inr n"
    and "0 < n" and "next_elem contributors = Inr top_contributor"
    and "get_user_teams org top_contributor = Inr teams" and "totalCount teams = Inr 0"
  shows "determine_owner org repo = ''default-team''"
  using assms by (simp add: determine_owner_def contributor_owner_def)

text \<open>
  Claim C5 (no team in CODEOWNERS, a contributor exists, the team lookup succeeds and is
  empty: the owner is \<^verbatim>\<open>user:<login>\<close>). The contributor is only returned by the handler
  of the team lookup; when the lookup succeeds with no team, the code falls through to
  the fallback: for top contributor alice the owner is "default-team", where the claim
  says "user:alice".
\<close>

theorem owner_no_team_found:
  "codeowners_team alice_repo = None \<and>
   get_contributors alice_repo = Inr \<lparr>totalCount = Inr 1, elems = [Inr \<lparr>login = ''alice''\<rparr>]\<rparr> \<and>
   get_user_teams acme_org \<lparr>login = ''alice''\<rparr> = Inr \<lparr>totalCount = Inr 0, elems = []\<rparr> \<and>
   determine_owner acme_org alice_repo = ''default-team''"
  by (simp add: determine_owner_def codeowners_team_def contributor_owner_def alice_repo_def
      plain_repo_def acme_org_def no_items_def missing_def next_elem_def)

section \<open>Properties of the status aggregator\<close>

lemma find_integration_pr_find:
  "find_integration_pr open_prs =
     (case List.find ends_search open_prs of
        None \<Rightarrow> Inr None
      | Some (Inl e) \<Rightarrow> Inl e
      | Some (Inr pr) \<Rightarrow> Inr (Some pr))"
  by (induction open_prs rule: find_integration_pr.induct) (simp_all add: ends_search_def)

text \<open>One round of the loop adds one to the total, one to the counter of the status
  resolved (none for an error), and one line.\<close>

lemma status_step_resolve:
  "status_step repo r =
     \<lparr>total = total r + 1,
      onboarded = onboarded r + (if resolve_status repo = Onboarded then 1 else 0),
      in_progress = in_progress r + (if is_in_progress (resolve_status repo) then 1 else 0),
      not_onboarded = not_onboarded r + (if resolve_status repo = Not_onboarded then 1 else 0),
      status_report = status_report r @ [(repo_name repo, resolve_status repo)]\<rparr>"
  by (simp add: status_step_def resolve_status_def find_integration_pr_find Let_def
      split: sum.splits option.splits)

lemma status_loop_resolve:
  "status_loop (map Inr repos) r =
     Inr \<lparr>total = total r + length repos,
          onboarded = onboarded r + how_many (\<lambda>s. s = Onboarded) repos,
          in_progress = in_progress r + how_many is_in_progress repos,
          not_onboarded = not_onboarded r + how_many (\<lambda>s. s = Not_onboarded) repos,
          status_report =
            status_report r @ map (\<lambda>repo. (repo_name repo, resolve_status repo)) repos\<rparr>"
proof (induction repos arbitrary: r)
  case Nil
  show ?case by (simp add: how_many_def)
next
  case (Cons repo repos)
  show ?case
    by (simp add: Cons.IH status_step_resolve how_many_def)
qed

text \<open>
  Claim C3, as stated, fails: a failure of the descriptor lookup does not give the error
  status. The repository below answers every content lookup with a transport failure and
  has no open pull request; it is counted and listed as not onboarded.
\<close>

theorem status_descriptor_failure_counterexample:
  "get_contents flaky_repo ''catalog-info.yaml'' = Inl (GithubException ''502 Bad Gateway'') \<and>
   generate_status_report (acme_org\<lparr>get_repos := [Inr flaky_repo]\<rparr>) [] =
     Inr \<lparr>total = 1, onboarded = 0, in_progress = 0, not_onboarded = 1,
          status_report = [(''flaky'', Not_onboarded)]\<rparr>"
  by (simp add: generate_status_report_def status_step_def flaky_repo_def plain_repo_def Let_def)

text \<open>
  Claim C3, amended: every repository listed gets the status \<open>resolve_status\<close> (descriptor
  lookup returns: onboarded; else the first open pull request with the marker: in
  progress, with its number; else not onboarded; a raise of the pull-request lookup
  before that: error with the message; a raise of the descriptor lookup counts as no
  descriptor). The total counts every repository, each of the three counters the
  repositories of its status, an error none of them, and the detail list gets one line
  per repository, errors included, in the order of the listing.
\<close>

theorem status_report_resolution:
  "generate_status_report (org\<lparr>get_repos := map Inr repos\<rparr>) lines =
     Inr \<lparr>total = length repos,
          onboarded = how_many (\<lambda>s. s = Onboarded) repos,
          in_progress = how_many is_in_progress repos,
          not_onboarded = how_many (\<lambda>s. s = Not_onboarded) repos,
          status_report = lines @ map (\<lambda>repo. (repo_name repo, resolve_status repo)) repos\<rparr>"
  by (simp add: generate_status_report_def status_loop_resolve)

theorem status_report_resolution_witness:
  "generate_status_report status_org [] =
     Inr \<lparr>total = 3, onboarded = 0, in_progress = 1, not_onboarded = 1,
          status_report = [(''billing'', In_progress 12), (''plain'', Not_onboarded),
                           (''legacy'', Error ''500 Server Error'')]\<rparr>"
  using status_report_resolution
    [where org = status_org and repos = "[pr_repo, plain_repo, broken_pulls_repo]"
       and lines = "[]"]
  by (simp add: status_org_def how_many_def resolve_status_def pr_repo_def plain_repo_def
      broken_pulls_repo_def missing_def ends_search_def)

text \<open>The counters after a round depend on the counters before it and on the
  repository, not on the lines accumulated.\<close>

lemma status_step_counts:
  "counts r = counts r' \<Longrightarrow> counts (status_step repo r) = counts (status_step repo r')"
  by (simp add: status_step_resolve counts_def)

lemma status_loop_counts:
  "counts r = counts r' \<Longrightarrow> status_loop repositories r = Inr a \<Longrightarrow>
     \<exists>b. status_loop repositories r' = Inr b \<and> counts b = counts a"
proof (induction repositories r arbitrary: r' rule: status_loop.induct)
  case (1 r)
  then show ?case by simp
next
  case (2 e repositories r)
  then show ?case by simp
next
  case (3 repo repositories r)
  from "3.prems"(1) have "counts (status_step repo r) = counts (status_step repo r')"
    by (rule status_step_counts)
  with "3.IH" "3.prems"(2) show ?case by simp
qed

text \<open>
  Claim C8: when a first run of the aggregation returns, a second run over the same
  organization, which starts from the accumulator the first run left behind, returns
  too, with the same total, onboarded, in-progress and not-onboarded counts.
\<close>

theorem status_counts_idempotent:
  assumes "generate_status_report org lines = Inr first"
  shows "\<exists>second. generate_status_report org (status_report first) = Inr second
           \<and> total second = total first \<and> onboarded second = onboarded first
           \<and> in_progress second = in_progress first
           \<and> not_onboarded second = not_onboarded first"
proof -
  have "counts \<lparr>total = 0, onboarded = 0, in_progress = 0, not_onboarded = 0,
                status_report = lines\<rparr>
        = counts \<lparr>total = 0, onboarded = 0, in_progress = 0, not_onboarded = 0,
                  status_report = status_report first\<rparr>"
    by (simp add: counts_def)
  from status_loop_counts [OF this] assms
  obtain b where "generate_status_report org (status_report first) = Inr b"
    and "counts b = counts first"
    unfolding generate_status_report_def by blast
  then show ?thesis by (auto simp: counts_def)
qed

theorem status_counts_idempotent_witness:
  "generate_status_report status_org [] =
     Inr \<lparr>total = 3, onboarded = 0, in_progress = 1, not_onboarded = 1,
          status_report = [(''billing'', In_progress 12), (''plain'', Not_onboarded),
                           (''legacy'', Error ''500 Server Error'')]\<rparr> \<and>
   (\<exists>second.
      generate_status_report status_org
        [(''billing'', In_progress 12), (''plain'', Not_onboarded),
         (''legacy'', Error ''500 Server Error'')] = Inr second
      \<and> total second = 3 \<and> onboarded second = 0 \<and> in_progress second = 1
      \<and> not_onboarded second = 1)"
proof -
  have run: "generate_status_report status_org [] =
     Inr \<lparr>total = 3, onboarded = 0, in_progress = 1, not_onboarded = 1,
          status_report = [(''billing'', In_progress 12), (''plain'', Not_onboarded),
                           (''legacy'', Error ''500 Server Error'')]\<rparr>"
    by (simp add: generate_status_report_def status_org_def status_step_def pr_repo_def
        plain_repo_def broken_pulls_repo_def missing_def Let_def)
  from status_counts_idempotent [OF run] run show ?thesis by simp
qed

section \<open>Properties of the priority scorer\<close>

text \<open>Each statement of \<^verbatim>\<open>analyze_repository_priority\<close> adds the points of one rule of
  the table to the score, whatever the score was.\<close>

lemma score_add_points: "score (add_points n r s) = score s + n"
  by (simp add: add_points_def)

lemma score_recently_active:
  "pushed_at repo = Some pushed \<Longrightarrow>
     score (recently_active_step now pushed s) = score s + rule_recently_active now repo"
  by (simp add: recently_active_step_def rule_recently_active_def score_add_points)

lemma score_established:
  "score (established_step now repo s) = score s + rule_established now repo"
  by (simp add: established_step_def rule_established_def score_add_points)

lemma score_stars: "score (stars_step repo s) = score s + rule_stars now repo"
  by (simp add: stars_step_def rule_stars_def score_add_points mult.commute)

lemma score_forks: "score (forks_step repo s) = score s + rule_forks now repo"
  by (simp add: forks_step_def rule_forks_def score_add_points mult.commute)

lemma filter_nonempty_list_ex: "(filter P xs \<noteq> []) = list_ex P xs"
  by (induction xs) simp_all

lemma score_documentation:
  "root_names repo = Some files \<Longrightarrow>
     score (documentation_step files s) = score s + rule_documentation now repo"
  by (simp add: documentation_step_def rule_documentation_def filter_nonempty_list_ex
      score_add_points)

lemma contains_str_Nil [simp]: "contains_str s []"
  by (cases s) simp_all

lemma score_description_keyword:
  "score (description_keyword_step repo s) = score s + rule_description_keyword now repo"
  by (simp add: description_keyword_step_def rule_description_keyword_def score_add_points
      api_keywords_def lower_def split: option.splits)

lemma score_topic_keyword:
  "score (topic_keyword_step repo s) = score s + rule_topic_keyword now repo"
  by (cases "topics repo")
     (simp_all add: topic_keyword_step_def rule_topic_keyword_def score_add_points)

lemma score_has_description:
  "score (has_description_step repo s) = score s + rule_has_description now repo"
  by (simp add: has_description_step_def rule_has_description_def score_add_points)

lemma score_has_homepage:
  "score (has_homepage_step repo s) = score s + rule_has_homepage now repo"
  by (simp add: has_homepage_step_def rule_has_homepage_def score_add_points)

lemma score_topic_count:
  "score (topic_count_step repo s) = score s + rule_topic_count now repo"
  by (simp add: topic_count_step_def rule_topic_count_def score_add_points mult.commute)

text \<open>Every rule gives between 0 points and its cap.\<close>

lemma rule_bounds:
  "0 \<le> rule_recently_active now repo \<and> rule_recently_active now repo \<le> 30"
  "0 \<le> rule_established now repo \<and> rule_established now repo \<le> 20"
  "0 \<le> rule_stars now repo \<and> rule_stars now repo \<le> 50"
  "0 \<le> rule_forks now repo \<and> rule_forks now repo \<le> 50"
  "0 \<le> rule_documentation now repo \<and> rule_documentation now repo \<le> 30"
  "0 \<le> rule_description_keyword now repo \<and> rule_description_keyword now repo \<le> 20"
  "0 \<le> rule_topic_keyword now repo \<and> rule_topic_keyword now repo \<le> 20"
  "0 \<le> rule_has_description now repo \<and> rule_has_description now repo \<le> 10"
  "0 \<le> rule_has_homepage now repo \<and> rule_has_homepage now repo \<le> 10"
  "0 \<le> rule_topic_count now repo \<and> rule_topic_count now repo \<le> 20"
  by (simp_all add: rule_recently_active_def rule_established_def rule_stars_def rule_forks_def
      rule_documentation_def rule_description_keyword_def rule_topic_keyword_def
      rule_has_description_def rule_has_homepage_def rule_topic_count_def
      split: option.splits)

text \<open>The \<^verbatim>\<open>try\<close> block adds the points of its three rules when the root listing is
  read, and nothing when it is not.\<close>

lemma score_developer_listed:
  "root_names repo = Some files \<Longrightarrow>
     developer_step repo s =
       topic_keyword_step repo (description_keyword_step repo (documentation_step files s))"
  by (auto simp: developer_step_def root_names_def split: sum.splits contents.splits)

lemma score_developer_unlisted:
  "root_names repo = None \<Longrightarrow> developer_step repo s = s"
  by (auto simp: developer_step_def root_names_def split: sum.splits contents.splits)

lemma score_developer_bounds:
  "score s \<le> score (developer_step repo s) \<and> score (developer_step repo s) \<le> score s + 70"
proof (cases "root_names repo")
  case None
  then show ?thesis by (simp add: score_developer_unlisted)
next
  case (Some files)
  have "score (developer_step repo s) =
          score s + rule_documentation 0 repo + rule_description_keyword 0 repo
            + rule_topic_keyword 0 repo"
    by (simp add: score_developer_listed [OF Some] score_topic_keyword [of _ _ 0]
        score_description_keyword [of _ _ 0] score_documentation [OF Some, of _ 0])
  with rule_bounds(5-7) [of 0 repo] show ?thesis by linarith
qed

text \<open>The score of an analysis that returns, with the \<^verbatim>\<open>try\<close> block as one step.\<close>

lemma analyze_score:
  assumes "analyze_repository_priority now repo = Inr r"
  shows "\<exists>pushed. pushed_at repo = Some pushed \<and>
           res_score r =
             score (topic_count_step repo (has_homepage_step repo (has_description_step repo
               (developer_step repo (forks_step repo (stars_step repo
                 (established_step now repo
                   (recently_active_step now pushed \<lparr>score = 0, reasons = []\<rparr>))))))))"
  using assms by (cases "pushed_at repo") (auto simp: analyze_repository_priority_def Let_def)








lemma sdk_analysis:
  "analyze_repository_priority (day 1000) sdk_repo =
     Inr \<lparr>res_name = ''rest-sdk'', res_score = 125,
          res_reasons = [Recently_active, Established_project, Has_stars 5, Has_forks 1,
                         Has_developer_documentation, Api_related_description, Has_description],
          res_url = ''https://github.com/acme/rest-sdk'', res_description = ''REST client SDK'',
          res_updated_at = day 995, res_stars = 5, res_forks = 1\<rparr>"
  by (simp add: analyze_repository_priority_def sdk_repo_def plain_repo_def day_def
      recently_active_step_def established_step_def stars_step_def forks_step_def
      developer_step_def documentation_step_def description_keyword_step_def
      topic_keyword_step_def has_description_step_def has_homepage_step_def
      topic_count_step_def add_points_def days_since_def dev_files_def api_keywords_def
      lower_def file_entry_def)




lemma busy_analysis:
  "map_sum id res_score (analyze_repository_priority (day 1000) busy_repo) = Inr 260"
  by (simp add: analyze_repository_priority_def busy_repo_def plain_repo_def day_def
      recently_active_step_def established_step_def stars_step_def forks_step_def
      developer_step_def documentation_step_def description_keyword_step_def
      topic_keyword_step_def has_description_step_def has_homepage_step_def
      topic_count_step_def add_points_def days_since_def dev_files_def api_keywords_def
      lower_def file_entry_def)

lemma analyze_score_bounds:
  assumes "analyze_repository_priority now repo = Inr r"
  shows "0 \<le> res_score r \<and> res_score r \<le> 260"
proof -
  from analyze_score [OF assms] obtain pushed where pushed: "pushed_at repo = Some pushed"
    and r: "res_score r =
             score (topic_count_step repo (has_homepage_step repo (has_description_step repo
               (developer_step repo (forks_step repo (stars_step repo
                 (established_step now repo
                   (recently_active_step now pushed \<lparr>score = 0, reasons = []\<rparr>))))))))"
    by blast
  define s4 where "s4 = forks_step repo (stars_step repo (established_step now repo
                   (recently_active_step now pushed \<lparr>score = 0, reasons = []\<rparr>)))"
  have before: "score s4 = rule_recently_active now repo + rule_established now repo
                  + rule_stars now repo + rule_forks now repo"
    by (simp add: s4_def score_forks [of _ _ now] score_stars [of _ _ now] score_established
        score_recently_active [OF pushed])
  have after: "res_score r = score (developer_step repo s4) + rule_has_description now repo
                  + rule_has_homepage now repo + rule_topic_count now repo"
    by (simp add: r s4_def score_topic_count [of _ _ now] score_has_homepage [of _ _ now]
        score_has_description [of _ _ now])
  from before after score_developer_bounds [of s4 repo] rule_bounds(1-4,8-10) [of now repo]
  show ?thesis by linarith
qed

text \<open>
  Claim C10: a score returned by \<^verbatim>\<open>analyze_repository_priority\<close> lies between 0 and 260,
  and 260 = 30+20+50+50+30+20+20+10+10+20 is reached, by a repository at the cap of
  every rule.
\<close>

theorem priority_score_bounds:
  "(analyze_repository_priority now repo = Inr r \<longrightarrow> 0 \<le> res_score r \<and> res_score r \<le> 260)
   \<and> map_sum id res_score (analyze_repository_priority (day 1000) busy_repo)
       = Inr (30 + 20 + 50 + 50 + 30 + 20 + 20 + 10 + 10 + 20)"
  using analyze_score_bounds [of now repo r] by (simp add: busy_analysis)

theorem priority_score_bounds_witness:
  "analyze_repository_priority (day 1000) sdk_repo =
     Inr \<lparr>res_name = ''rest-sdk'', res_score = 125,
          res_reasons = [Recently_active, Established_project, Has_stars 5, Has_forks 1,
                         Has_developer_documentation, Api_related_description, Has_description],
          res_url = ''https://github.com/acme/rest-sdk'', res_description = ''REST client SDK'',
          res_updated_at = day 995, res_stars = 5, res_forks = 1\<rparr>
   \<and> (0::int) \<le> 125 \<and> (125::int) \<le> 260"
  using priority_score_bounds [of "day 1000" sdk_repo] sdk_analysis by simp

section \<open>Properties of the priority report\<close>

text \<open>Every result the loop collects comes from a listed repository whose descriptor
  lookup raised and whose score is above 30.\<close>

lemma priority_loop_entries:
  "priority_loop now repositories acc = Inr results \<Longrightarrow>
     set results \<subseteq> set acc \<union>
       {entry. \<exists>repo. Inr repo \<in> set repositories
          \<and> isl (get_contents repo ''catalog-info.yaml'')
          \<and> analyze_repository_priority now repo = Inr entry \<and> 30 < res_score entry}"
proof (induction repositories arbitrary: acc)
  case Nil
  then show ?case by simp
next
  case (Cons x repositories)
  show ?case
  proof (cases x)
    case (Inl e)
    with Cons.prems show ?thesis by simp
  next
    case (Inr repo)
    then have x: "x = Inr repo" .
    show ?thesis
    proof (cases "get_contents repo ''catalog-info.yaml''")
      case (Inr c)
      with Cons.prems x have "priority_loop now repositories acc = Inr results" by simp
      from Cons.IH [OF this] show ?thesis by auto
    next
      case (Inl e)
      then have absent: "isl (get_contents repo ''catalog-info.yaml'')" by simp
      show ?thesis
      proof (cases "analyze_repository_priority now repo")
        case (Inl e')
        with Cons.prems x \<open>get_contents repo ''catalog-info.yaml'' = Inl e\<close>
        have "priority_loop now repositories acc = Inr results" by simp
        from Cons.IH [OF this] show ?thesis by auto
      next
        case (Inr result)
        show ?thesis
        proof (cases "30 < res_score result")
          case True
          with Cons.prems x Inr \<open>get_contents repo ''catalog-info.yaml'' = Inl e\<close>
          have "priority_loop now repositories (acc @ [result]) = Inr results" by simp
          from Cons.IH [OF this] True Inr absent x show ?thesis by auto
        next
          case False
          with Cons.prems x Inr \<open>get_contents repo ''catalog-info.yaml'' = Inl e\<close>
          have "priority_loop now repositories acc = Inr results" by simp
          from Cons.IH [OF this] show ?thesis by auto
        qed
      qed
    qed
  qed
qed

text \<open>Taking the repositories whose descriptor lookup returns out of the listing changes
  nothing.\<close>

lemma priority_loop_filter:
  "priority_loop now (filter descriptor_lookup_raises repositories) acc
     = priority_loop now repositories acc"
proof (induction now repositories acc rule: priority_loop.induct)
  case (1 now acc)
  show ?case by simp
next
  case (2 now e repositories acc)
  show ?case by (simp add: descriptor_lookup_raises_def)
next
  case (3 now repo repositories acc)
  show ?case
  proof (cases "get_contents repo ''catalog-info.yaml''")
    case (Inr c)
    with 3 show ?thesis by (simp add: descriptor_lookup_raises_def)
  next
    case (Inl e)
    show ?thesis
    proof (cases "analyze_repository_priority now repo")
      case (Inl e')
      with 3 \<open>get_contents repo ''catalog-info.yaml'' = Inl e\<close> show ?thesis
        by (simp add: descriptor_lookup_raises_def)
    next
      case (Inr result)
      with 3 \<open>get_contents repo ''catalog-info.yaml'' = Inl e\<close> show ?thesis
        by (cases "30 < res_score result") (simp_all add: descriptor_lookup_raises_def)
    qed
  qed
qed

text \<open>
  Claim C7, as stated, fails: a repository with the descriptor file committed can be in
  the report. The repository below lists catalog-info.yaml in its root, but the lookup of
  the file fails in transport; the handler takes the raise for a missing file, and the
  repository is scored and reported with 260 points.
\<close>

theorem priority_report_flaky_lookup_counterexample:
  "root_names flaky_busy_repo = Some [''README.md'', ''catalog-info.yaml'']
   \<and> get_contents flaky_busy_repo ''catalog-info.yaml''
       = Inl (GithubException ''502 Bad Gateway'')
   \<and> map_sum id (map (\<lambda>entry. (res_name entry, res_score entry)))
        (generate_priority_report (day 1000)
           (priority_org\<lparr>get_repos := [Inr flaky_busy_repo]\<rparr>))
       = Inr [(''platform-api'', 260)]"
  by (simp add: generate_priority_report_def flaky_busy_repo_def root_names_def
      analyze_repository_priority_def busy_repo_def plain_repo_def day_def
      recently_active_step_def established_step_def stars_step_def forks_step_def
      developer_step_def documentation_step_def description_keyword_step_def
      topic_keyword_step_def has_description_step_def has_homepage_step_def
      topic_count_step_def add_points_def days_since_def dev_files_def api_keywords_def
      lower_def file_entry_def)

text \<open>
  Claim C7, amended: a repository whose lookup of the descriptor file returns is never in
  the priority report, whatever its score. Every entry of a report comes from a listed
  repository whose lookup of catalog-info.yaml raised (and that scored above 30), and the
  report is the one produced from the listing without the repositories whose lookup
  returns: they are left out before any scoring. A raise of the lookup, of whatever kind,
  counts as the file being absent.
\<close>

theorem priority_report_excludes_onboarded:
  assumes "generate_priority_report now org = Inr entries"
  shows "(\<forall>entry \<in> set entries.
            \<exists>repo. Inr repo \<in> set (get_repos org)
              \<and> isl (get_contents repo ''catalog-info.yaml'')
              \<and> analyze_repository_priority now repo = Inr entry \<and> 30 < res_score entry)
         \<and> generate_priority_report now
             (org\<lparr>get_repos := filter descriptor_lookup_raises (get_repos org)\<rparr>) = Inr entries"
proof -
  from assms obtain results where loop: "priority_loop now (get_repos org) [] = Inr results"
    and entries: "entries = take 10 (sort_key (\<lambda>x. - res_score x) results)"
    by (auto simp: generate_priority_report_def split: sum.splits)
  have "set entries \<subseteq> set results"
    unfolding entries using set_take_subset [of 10 "sort_key (\<lambda>x. - res_score x) results"]
    by simp
  with priority_loop_entries [OF loop] have first: "\<forall>entry \<in> set entries.
            \<exists>repo. Inr repo \<in> set (get_repos org)
              \<and> isl (get_contents repo ''catalog-info.yaml'')
              \<and> analyze_repository_priority now repo = Inr entry \<and> 30 < res_score entry"
    by auto
  have "generate_priority_report now
          (org\<lparr>get_repos := filter descriptor_lookup_raises (get_repos org)\<rparr>) = Inr entries"
    using assms by (simp add: generate_priority_report_def priority_loop_filter)
  with first show ?thesis by blast
qed

theorem priority_report_excludes_onboarded_witness:
  "get_contents busy_repo ''catalog-info.yaml''
     = Inr (ContentFile (file_entry ''catalog-info.yaml'' ''kind: Component''))
   \<and> map_sum id res_score (analyze_repository_priority (day 1000) busy_repo) = Inr 260
   \<and> map_sum id (map res_name) (generate_priority_report (day 1000) priority_org)
       = Inr [''rest-sdk'']
   \<and> map_sum id (map res_name)
        (generate_priority_report (day 1000) (priority_org\<lparr>get_repos := [Inr sdk_repo]\<rparr>))
       = Inr [''rest-sdk'']"
proof -
  have descriptor: "get_contents busy_repo ''catalog-info.yaml''
     = Inr (ContentFile (file_entry ''catalog-info.yaml'' ''kind: Component''))"
    by (simp add: busy_repo_def plain_repo_def)
  have absent: "get_contents sdk_repo ''catalog-info.yaml'' = missing"
    by (simp add: sdk_repo_def plain_repo_def)
  obtain entry where entry: "analyze_repository_priority (day 1000) sdk_repo = Inr entry"
    and name: "res_name entry = ''rest-sdk''" and points: "res_score entry = 125"
    using sdk_analysis by simp
  have run: "generate_priority_report (day 1000) priority_org = Inr [entry]"
    by (simp add: generate_priority_report_def priority_org_def descriptor absent missing_def
        entry points)
  have kept: "filter descriptor_lookup_raises (get_repos priority_org) = [Inr sdk_repo]"
    by (simp add: priority_org_def descriptor_lookup_raises_def descriptor absent missing_def)
  from priority_report_excludes_onboarded [OF run] kept
  show ?thesis by (simp add: descriptor run name busy_analysis)
qed

section \<open>Properties of the API spec detector\<close>

text \<open>Neither loop ever removes an entry from \<^verbatim>\<open>api_specs\<close>.\<close>

lemma scan_sub_extends: "\<exists>ys. fst (scan_sub subcontents api_specs) = api_specs @ ys"
proof (induction subcontents arbitrary: api_specs)
  case Nil
  show ?case by simp
next
  case (Cons subcontent subcontents)
  show ?case
  proof (cases "is_spec_file subcontent")
    case False
    with Cons.IH [of api_specs] show ?thesis by simp
  next
    case True
    show ?thesis
    proof (cases "decoded_content subcontent")
      case (Inl e)
      with True show ?thesis by simp
    next
      case (Inr content)
      from Cons.IH [of "api_specs @ [\<lparr>spec_path = cf_path subcontent,
          spec_type = determine_api_type (cf_name subcontent), spec_content = content\<rparr>]"]
      show ?thesis using True Inr by auto
    qed
  qed
qed

text \<open>One root entry either extends the list and lets the loop go on, or ends the loop
  with the list as it is.\<close>

lemma scan_top_Cons:
  "\<exists>zs. (\<forall>contents. scan_top repo (content # contents) api_specs
                        = scan_top repo contents (api_specs @ zs))
        \<or> (\<exists>e. \<forall>contents. scan_top repo (content # contents) api_specs = (api_specs, Some e))"
proof (cases "cf_type content = ''dir''")
  case dir: True
  show ?thesis
  proof (cases "lower (cf_name content) \<in> set [''docs'', ''api'', ''specs'']")
    case False
    with dir have "\<forall>contents. scan_top repo (content # contents) api_specs
                        = scan_top repo contents (api_specs @ [])"
      by simp
    then show ?thesis by blast
  next
    case True
    show ?thesis
    proof (cases "get_contents repo (cf_path content)")
      case (Inl e)
      with dir True have "\<forall>contents. scan_top repo (content # contents) api_specs
                        = scan_top repo contents (api_specs @ [])"
        by simp
      then show ?thesis by blast
    next
      case (Inr c)
      show ?thesis
      proof (cases c)
        case (ContentFile f)
        with dir True Inr have "\<forall>contents. scan_top repo (content # contents) api_specs
                        = scan_top repo contents (api_specs @ [])"
          by simp
        then show ?thesis by blast
      next
        case (ContentList subcontents)
        obtain ys where "fst (scan_sub subcontents api_specs) = api_specs @ ys"
          using scan_sub_extends by blast
        with dir True Inr ContentList
        have "\<forall>contents. scan_top repo (content # contents) api_specs
                        = scan_top repo contents (api_specs @ ys)"
          by simp
        then show ?thesis by blast
      qed
    qed
  qed
next
  case plain: False
  show ?thesis
  proof (cases "is_spec_file content")
    case False
    with plain have "\<forall>contents. scan_top repo (content # contents) api_specs
                        = scan_top repo contents (api_specs @ [])"
      by simp
    then show ?thesis by blast
  next
    case True
    show ?thesis
    proof (cases "decoded_content content")
      case (Inl e)
      with plain True
      have "\<forall>contents. scan_top repo (content # contents) api_specs = (api_specs, Some e)"
        by simp
      then show ?thesis by blast
    next
      case (Inr body)
      with plain True have "\<forall>contents. scan_top repo (content # contents) api_specs
          = scan_top repo contents (api_specs @ [\<lparr>spec_path = cf_path content,
              spec_type = determine_api_type (cf_name content), spec_content = body\<rparr>])"
        by simp
      then show ?thesis by blast
    qed
  qed
qed

lemma scan_top_extends: "\<exists>ys. fst (scan_top repo contents api_specs) = api_specs @ ys"
proof (induction contents arbitrary: api_specs)
  case Nil
  show ?case by simp
next
  case (Cons content contents)
  from scan_top_Cons [of repo content api_specs]
  obtain zs where "(\<forall>contents. scan_top repo (content # contents) api_specs
                        = scan_top repo contents (api_specs @ zs))
        \<or> (\<exists>e. \<forall>contents. scan_top repo (content # contents) api_specs = (api_specs, Some e))"
    by blast
  then show ?case
  proof
    assume step: "\<forall>contents. scan_top repo (content # contents) api_specs
                        = scan_top repo contents (api_specs @ zs)"
    from Cons.IH [of "api_specs @ zs"] obtain ys
      where "fst (scan_top repo contents (api_specs @ zs)) = (api_specs @ zs) @ ys" by blast
    moreover from step have "scan_top repo (content # contents) api_specs
        = scan_top repo contents (api_specs @ zs)" by blast
    ultimately
    have "fst (scan_top repo (content # contents) api_specs) = api_specs @ (zs @ ys)"
      by (simp only: append_assoc)
    then show ?thesis by blast
  next
    assume "\<exists>e. \<forall>contents. scan_top repo (content # contents) api_specs = (api_specs, Some e)"
    then obtain e
      where "\<forall>contents. scan_top repo (content # contents) api_specs = (api_specs, Some e)"
      by blast
    then have "scan_top repo (content # contents) api_specs = (api_specs, Some e)" by blast
    then have "fst (scan_top repo (content # contents) api_specs) = api_specs @ []"
      by (simp only: fst_conv append_Nil2)
    then show ?thesis by blast
  qed
qed

lemma scan_top_append:
  "prefix (fst (scan_top repo cs api_specs)) (fst (scan_top repo (cs @ ds) api_specs))"
proof (induction cs arbitrary: api_specs)
  case Nil
  show ?case using scan_top_extends [of repo ds api_specs] by (auto simp: prefix_def)
next
  case (Cons content cs)
  from scan_top_Cons [of repo content api_specs]
  obtain zs where "(\<forall>contents. scan_top repo (content # contents) api_specs
                        = scan_top repo contents (api_specs @ zs))
        \<or> (\<exists>e. \<forall>contents. scan_top repo (content # contents) api_specs = (api_specs, Some e))"
    by blast
  then show ?case
  proof
    assume step: "\<forall>contents. scan_top repo (content # contents) api_specs
                        = scan_top repo contents (api_specs @ zs)"
    then have "scan_top repo (content # cs) api_specs = scan_top repo cs (api_specs @ zs)"
      and "scan_top repo (content # (cs @ ds)) api_specs
             = scan_top repo (cs @ ds) (api_specs @ zs)"
      by blast+
    with Cons.IH [of "api_specs @ zs"] show ?thesis by (simp only: append_Cons)
  next
    assume "\<exists>e. \<forall>contents. scan_top repo (content # contents) api_specs = (api_specs, Some e)"
    then obtain e
      where stop: "\<forall>contents. scan_top repo (content # contents) api_specs = (api_specs, Some e)"
      by blast
    then have "scan_top repo (content # cs) api_specs = (api_specs, Some e)"
      and "scan_top repo (content # (cs @ ds)) api_specs = (api_specs, Some e)"
      by blast+
    then show ?thesis by (simp only: append_Cons prefix_order.order_refl)
  qed
qed

text \<open>A spec file whose content cannot be fetched ends the scan of its directory with
  the references collected before it.\<close>

lemma scan_sub_failure:
  assumes "is_spec_file s" and "isl (decoded_content s)"
  shows "fst (scan_sub (ss @ s # ts) api_specs) = fst (scan_sub ss api_specs)"
proof (induction ss arbitrary: api_specs)
  case Nil
  from assms show ?case by (cases "decoded_content s") simp_all
next
  case (Cons subcontent ss)
  show ?case
  proof (cases "is_spec_file subcontent")
    case False
    with Cons.IH [of api_specs] show ?thesis by simp
  next
    case True
    show ?thesis
    proof (cases "decoded_content subcontent")
      case (Inl e)
      with True show ?thesis by simp
    next
      case (Inr body)
      with True Cons.IH [of "api_specs @ [\<lparr>spec_path = cf_path subcontent,
          spec_type = determine_api_type (cf_name subcontent), spec_content = body\<rparr>]"]
      show ?thesis by simp
    qed
  qed
qed

text \<open>
  Claim C4, as stated, fails: a failure during the scan does not empty the result. In the
  repository below the listing of docs fails and the content of swagger.json cannot be
  fetched, and the reference to openapi.yaml is returned all the same.
\<close>

theorem detect_api_specs_partial_counterexample:
  "get_contents half_readable_repo ''docs'' = Inl (GithubException ''502 Bad Gateway'') \<and>
   detect_api_specs half_readable_repo =
     [\<lparr>spec_path = ''openapi.yaml'', spec_type = ''openapi'', spec_content = ''openapi: 3.0.0''\<rparr>]"
  by (simp add: detect_api_specs_def half_readable_repo_def plain_repo_def dir_entry_def
      file_entry_def is_spec_file_def spec_patterns_def endswith_def lower_def
      determine_api_type_def)

text \<open>
  Claim C4, amended. When the listing of the repository root fails, the result is empty.
  Once the root is listed, a failure never discards a reference already collected: the
  result starts with the references collected from any initial part of the root entries.
  A failure inside a directory ends the scan of that directory only: when the listing of
  the directory fails, the scan goes on with the next root entry and the list as it was;
  when the content of a spec file in a docs, api or specs directory cannot be fetched,
  the scan goes on with the next root entry and the references collected from the
  directory before that file.
\<close>

theorem detect_api_specs_keeps_collected:
  "(isl (get_contents repo []) \<longrightarrow> detect_api_specs repo = [])
   \<and> (get_contents repo' [] = Inr (ContentList (cs @ ds)) \<longrightarrow>
        prefix (fst (scan_top repo' cs [])) (detect_api_specs repo'))
   \<and> (cf_type d = ''dir'' \<and> isl (get_contents repo2 (cf_path d)) \<longrightarrow>
        scan_top repo2 (d # rest) api_specs = scan_top repo2 rest api_specs)
   \<and> (cf_type d' = ''dir'' \<and> lower (cf_name d') \<in> set [''docs'', ''api'', ''specs'']
        \<and> get_contents repo3 (cf_path d') = Inr (ContentList (ss @ s # ts))
        \<and> is_spec_file s \<and> isl (decoded_content s) \<longrightarrow>
        scan_top repo3 (d' # rest') api_specs'
          = scan_top repo3 rest' (fst (scan_sub ss api_specs')))"
proof -
  have "detect_api_specs repo = []" if "isl (get_contents repo [])"
    using that by (cases "get_contents repo []") (simp_all add: detect_api_specs_def)
  moreover have "prefix (fst (scan_top repo' cs [])) (detect_api_specs repo')"
    if "get_contents repo' [] = Inr (ContentList (cs @ ds))"
    using that scan_top_append [of repo' cs "[]" ds] by (simp add: detect_api_specs_def)
  moreover have "scan_top repo2 (d # rest) api_specs = scan_top repo2 rest api_specs"
    if "cf_type d = ''dir''" and "isl (get_contents repo2 (cf_path d))"
    using that by (cases "get_contents repo2 (cf_path d)") simp_all
  moreover have "scan_top repo3 (d' # rest') api_specs'
          = scan_top repo3 rest' (fst (scan_sub ss api_specs'))"
    if "cf_type d' = ''dir''" and "lower (cf_name d') \<in> set [''docs'', ''api'', ''specs'']"
      and "get_contents repo3 (cf_path d') = Inr (ContentList (ss @ s # ts))"
      and "is_spec_file s" and "isl (decoded_content s)"
  proof -
    from that(1-3) have "scan_top repo3 (d' # rest') api_specs'
          = scan_top repo3 rest' (fst (scan_sub (ss @ s # ts) api_specs'))"
      by simp
    with scan_sub_failure [OF that(4,5), of ss ts api_specs'] show ?thesis by simp
  qed
  ultimately show ?thesis by blast
qed

theorem detect_api_specs_keeps_collected_witness:
  "get_contents unreadable_repo [] = Inl (GithubException ''403 Forbidden'')
   \<and> detect_api_specs unreadable_repo = []
   \<and> prefix
        [\<lparr>spec_path = ''openapi.yaml'', spec_type = ''openapi'',
          spec_content = ''openapi: 3.0.0''\<rparr>]
        (detect_api_specs half_readable_repo)
   \<and> get_contents half_readable_repo ''docs'' = Inl (GithubException ''502 Bad Gateway'')
   \<and> scan_top half_readable_repo
        [dir_entry ''docs'', file_entry ''openapi.yaml'' ''openapi: 3.0.0''] []
       = ([\<lparr>spec_path = ''openapi.yaml'', spec_type = ''openapi'',
            spec_content = ''openapi: 3.0.0''\<rparr>], None)
   \<and> get_contents docs_repo ''docs'' = Inr (ContentList docs_listing)
   \<and> scan_top docs_repo [dir_entry ''docs'', file_entry ''schema.graphql'' ''type Query''] []
       = ([\<lparr>spec_path = ''docs/openapi.yaml'', spec_type = ''openapi'',
            spec_content = ''openapi: 3.0.0''\<rparr>,
           \<lparr>spec_path = ''schema.graphql'', spec_type = ''graphql'',
            spec_content = ''type Query''\<rparr>], None)"
  using detect_api_specs_keeps_collected
    [where repo = unreadable_repo and repo' = half_readable_repo
       and cs = "[dir_entry ''docs'', file_entry ''openapi.yaml'' ''openapi: 3.0.0'']"
       and ds = "[(file_entry ''swagger.json'' [])
                    \<lparr>decoded_content := Inl (GithubException ''502 Bad Gateway'')\<rparr>]"
       and ?repo2.0 = half_readable_repo and d = "dir_entry ''docs''"
       and rest = "[file_entry ''openapi.yaml'' ''openapi: 3.0.0'']" and api_specs = "[]"
       and ?repo3.0 = docs_repo and d' = "dir_entry ''docs''"
       and ss = "[sub_entry ''docs'' ''openapi.yaml'' ''openapi: 3.0.0'']"
       and s = "(sub_entry ''docs'' ''swagger.json'' [])
                  \<lparr>decoded_content := Inl (GithubException ''502 Bad Gateway'')\<rparr>"
       and ts = "[sub_entry ''docs'' ''asyncapi.yml'' ''asyncapi: 2.6.0'']"
       and rest' = "[file_entry ''schema.graphql'' ''type Query'']" and api_specs' = "[]"]
  by (simp add: unreadable_repo_def half_readable_repo_def docs_repo_def docs_listing_def
      plain_repo_def dir_entry_def file_entry_def sub_entry_def is_spec_file_def
      spec_patterns_def endswith_def lower_def determine_api_type_def)

section \<open>Properties of the secure configuration storage\<close>










end
